theory Spec2Isabelle
  imports Complex_Main
begin

section \<open>Data model of holdem.py\<close>

text \<open>
  The three enumerations of the source. History entries and response labels are Python
  strings (\<open>action.name\<close>, the keys of the response dictionaries), so the model keeps
  them as strings and gives the \<open>name\<close> of an enumeration member explicitly.
\<close>

datatype PlayerType = TIGHT_PASSIVE | LOOSE_AGGRESSIVE | SCAREDY_CAT

datatype GameStage = PREFLOP | FLOP | TURN | RIVER | SHOWDOWN | TERMINAL

datatype ActionType = FOLD | CHECK | CALL | BET | RAISE | ALL_IN

fun action_name :: "ActionType \<Rightarrow> string" where
  "action_name FOLD = ''FOLD''"
| "action_name CHECK = ''CHECK''"
| "action_name CALL = ''CALL''"
| "action_name BET = ''BET''"
| "action_name RAISE = ''RAISE''"
| "action_name ALL_IN = ''ALL_IN''"

fun stage_name :: "GameStage \<Rightarrow> string" where
  "stage_name PREFLOP = ''PREFLOP''"
| "stage_name FLOP = ''FLOP''"
| "stage_name TURN = ''TURN''"
| "stage_name RIVER = ''RIVER''"
| "stage_name SHOWDOWN = ''SHOWDOWN''"
| "stage_name TERMINAL = ''TERMINAL''"

text \<open>
  Exceptions are values. Only the exceptions that the modelled statements can raise on
  lists and strings occur: an index out of range, a key missing from a dictionary, an
  element missing from a list (\<open>list.index\<close>) and a division by zero.
\<close>

datatype error = IndexError | KeyError | ValueError | ZeroDivisionError

definition bind_err :: "error + 'a \<Rightarrow> ('a \<Rightarrow> error + 'b) \<Rightarrow> error + 'b" where
  "bind_err m f = (case m of Inl e \<Rightarrow> Inl e | Inr x \<Rightarrow> f x)"

text \<open>\<open>xs[i]\<close> for a constant index \<open>i \<ge> 0\<close>: Python raises IndexError out of range.\<close>

definition get :: "'a list \<Rightarrow> nat \<Rightarrow> error + 'a" where
  "get xs i = (if i < length xs then Inr (xs ! i) else Inl IndexError)"

text \<open>\<open>xs.index(x)\<close>: the first position of \<open>x\<close>, ValueError when it is absent.\<close>

fun index :: "'a list \<Rightarrow> 'a \<Rightarrow> error + nat" where
  "index [] x = Inl ValueError"
| "index (y # ys) x =
     (if y = x then Inr 0 else bind_err (index ys x) (\<lambda>i. Inr (Suc i)))"

text \<open>
  A Python \<open>str\<close> is a sequence of Unicode code points; the suit symbols of a card token
  are not ASCII, so a card token is a list of code points. \<open>ord\<close> is the code point of
  an ASCII character.
\<close>

type_synonym pystr = "nat list"

definition ord :: "char \<Rightarrow> nat" where
  "ord c = of_char c"

definition spade :: nat where "spade = 9824"
definition club :: nat where "club = 9827"
definition heart :: nat where "heart = 9829"
definition diamond :: nat where "diamond = 9830"

text \<open>
  Amounts (pot, stacks, bet sizes, probabilities, expected values) are Python floats in
  the source. The model takes a float as the real number it denotes. The arithmetic of
  \<open>calculate_ev\<close>, whose numeric result is returned to the caller as the EV, rounds every
  operation as binary floating point does (section on binary64 below). The bookkeeping of
  stacks and pot and \<open>estimate_equity\<close> are modelled with exact operations: what is proved
  about them rests on comparisons, \<open>min\<close>, \<open>max\<close> and which branch is taken.
\<close>

type_synonym entry = "string \<times> string \<times> real"

record decision =
  rec_player :: string
  rec_stage :: string
  rec_action :: string
  rec_size :: real
  rec_pot :: real
  rec_stack :: real

text \<open>
  The fields of \<open>PokerDecisionModel\<close> that the modelled methods read or write. The
  fields \<open>position\<close>, \<open>community_cards\<close>, \<open>action_count\<close> and \<open>opponent_aggression\<close>
  are never read by them and are left out.
\<close>

record PokerDecisionModel =
  stage :: GameStage
  pot :: real
  hero_stack :: real
  villain_stack :: real
  hole_cards :: "pystr list"
  history :: "entry list"
  initial_stack :: real
  last_bet_amount :: real
  decision_tree :: "decision list"
  decision_evs :: "real list"
  opponent_type :: PlayerType

section \<open>The constructor and start_hand\<close>

text \<open>
  \<open>__init__\<close> with its four parameters; the position only adjusts the stacks for the
  blinds.
\<close>

definition init_model :: "PlayerType \<Rightarrow> string \<Rightarrow> real \<Rightarrow> real \<Rightarrow> PokerDecisionModel" where
  "init_model opp hero_position hero_stack0 villain_stack0 =
     (let s = \<lparr>stage = PREFLOP, pot = 1.5, hero_stack = hero_stack0,
                villain_stack = villain_stack0, hole_cards = [], history = [],
                initial_stack = hero_stack0, last_bet_amount = 0, decision_tree = [],
                decision_evs = [], opponent_type = opp\<rparr>
      in if hero_position = ''SB'' then
           s\<lparr>hero_stack := hero_stack s - 0.5, villain_stack := villain_stack s - 1\<rparr>
         else if hero_position = ''BB'' then
           s\<lparr>hero_stack := hero_stack s - 1, villain_stack := villain_stack s - 0.5\<rparr>
         else s)"

text \<open>
  \<open>start_hand\<close>. The board arguments \<open>flop\<close>, \<open>turn\<close> and \<open>river\<close> are only tested for
  truth and stored in \<open>community_cards\<close>, a field that no modelled method reads, so the
  model takes their truth values.
\<close>

definition start_hand ::
  "PokerDecisionModel \<Rightarrow> pystr list \<Rightarrow> bool \<Rightarrow> bool \<Rightarrow> bool \<Rightarrow> PokerDecisionModel" where
  "start_hand s hero_cards flop turn river =
     (let s1 = s\<lparr>hole_cards := hero_cards, history := [], stage := PREFLOP,
                 initial_stack := hero_stack s, last_bet_amount := 0,
                 decision_tree := [], decision_evs := [], pot := 1.5\<rparr>;
          s2 = (if flop then s1\<lparr>stage := FLOP, pot := 4.0\<rparr> else s1);
          s3 = (if turn then s2\<lparr>stage := TURN, pot := 8.0\<rparr> else s2)
      in if river then s3\<lparr>stage := RIVER, pot := 16.0\<rparr> else s3)"

section \<open>opponent_response\<close>

text \<open>A dictionary literal keeps its insertion order, which the EV loop iterates in.\<close>

definition opponent_response :: "PokerDecisionModel \<Rightarrow> ActionType \<Rightarrow> (string \<times> real) list" where
  "opponent_response s our_action =
     (if our_action = ALL_IN then [(''FOLD'', 1.0)]
      else if opponent_type s = TIGHT_PASSIVE then
        (if our_action \<in> set [BET, RAISE]
         then [(''FOLD'', 0.65), (''CALL'', 0.30), (''RAISE'', 0.05)]
         else [(''CHECK'', 0.80), (''BET'', 0.20)])
      else if opponent_type s = LOOSE_AGGRESSIVE then
        (if our_action \<in> set [BET, RAISE]
         then [(''FOLD'', 0.10), (''CALL'', 0.30), (''RAISE'', 0.60)]
         else [(''CHECK'', 0.05), (''BET'', 0.95)])
      else
        (if our_action \<in> set [BET, RAISE]
         then [(''FOLD'', 0.80), (''CALL'', 0.19), (''RAISE'', 0.01)]
         else [(''CHECK'', 0.90), (''BET'', 0.10)]))"

section \<open>estimate_equity\<close>

definition card_ranks :: "nat list" where
  "card_ranks = map ord ''23456789TJQKA''"

text \<open>
  One iteration of the loop over the hole cards: the \<open>try\<close> block reads \<open>card[0]\<close> and
  looks it up in \<open>card_ranks\<close>; the bare \<open>except\<close> turns either failure into 0.3.
\<close>

definition rank_value :: "pystr \<Rightarrow> real" where
  "rank_value card_token =
     (case bind_err (get card_token 0) (\<lambda>c. index card_ranks c) of
        Inl e \<Rightarrow> 0.3
      | Inr i \<Rightarrow> real i / 12.0)"

text \<open>The dictionary \<open>stage_factor\<close> has no entry for TERMINAL: the lookup raises KeyError.\<close>

fun stage_factor :: "GameStage \<Rightarrow> error + real" where
  "stage_factor PREFLOP = Inr 0.8"
| "stage_factor FLOP = Inr 0.6"
| "stage_factor TURN = Inr 0.4"
| "stage_factor RIVER = Inr 0.2"
| "stage_factor SHOWDOWN = Inr 1.0"
| "stage_factor TERMINAL = Inl KeyError"

text \<open>The statements of \<open>estimate_equity\<close> after the early return, in source order.\<close>

definition equity_body :: "PokerDecisionModel \<Rightarrow> error + real" where
  "equity_body s =
     (let values = map rank_value (hole_cards s) in
      if length values = 0 then Inl ZeroDivisionError
      else
        let strength = sum_list values / real (length values) in
        bind_err (get (hole_cards s) 0) (\<lambda>c0.
        bind_err (get c0 1) (\<lambda>suit0.
        bind_err (get (hole_cards s) 1) (\<lambda>c1.
        bind_err (get c1 1) (\<lambda>suit1.
        let suited = (suit0 = suit1) in
        bind_err (get values 0) (\<lambda>v0.
        bind_err (get values 1) (\<lambda>v1.
        let rank_diff = \<bar>v0 - v1\<bar>;
            connected = (rank_diff \<le> 0.083);
            strength' =
              (if suited \<and> connected then strength + 0.15
               else if suited then strength + 0.07
               else if connected then strength + 0.08
               else strength)
        in
        bind_err (stage_factor (stage s)) (\<lambda>factor.
        Inr (max 0.05 (min 0.95 (strength' * factor)))))))))))"

text \<open>
  \<open>"7" in self.hole_cards[0]\<close> is a substring test with a one-character needle, that
  is membership of the code point; \<open>and\<close> evaluates its second operand only when the first
  is true.
\<close>

definition estimate_equity :: "PokerDecisionModel \<Rightarrow> error + real" where
  "estimate_equity s =
     bind_err (get (hole_cards s) 0) (\<lambda>c0.
       if ord CHR ''7'' \<in> set c0 then
         bind_err (get (hole_cards s) 1) (\<lambda>c1.
           if ord CHR ''2'' \<in> set c1 then Inr 0.05 else equity_body s)
       else equity_body s)"

section \<open>Binary64 arithmetic\<close>

text \<open>
  A Python float is an IEEE 754 binary64 number, and every arithmetic operation returns
  the exact result rounded to the nearest binary64 number, ties to the even significand.
  \<open>fl\<close> is that rounding on the reals: the significand has 53 bits, and below
  \<open>2 ^ -1022\<close> the spacing stays \<open>2 ^ -1074\<close> (subnormal numbers). Overflow is not
  modelled: a result of magnitude \<open>2 ^ 1024\<close> or more is \<open>inf\<close> in Python. A decimal
  literal such as \<open>0.80\<close> denotes \<open>fl 0.80\<close>.
\<close>

text \<open>
  \<open>ilog2 n y\<close> is the integer \<open>e\<close> with \<open>2 ^ e \<le> y < 2 ^ (e + 1)\<close>, found in at most
  \<open>n\<close> halvings or doublings of \<open>y > 0\<close>.
\<close>

fun ilog2 :: "nat \<Rightarrow> real \<Rightarrow> int" where
  "ilog2 0 y = 0"
| "ilog2 (Suc n) y =
     (if 2 \<le> y then ilog2 n (y / 2) + 1
      else if y < 1 then ilog2 n (y * 2) - 1
      else 0)"

definition pow2 :: "int \<Rightarrow> real" where
  "pow2 k = (if 0 \<le> k then 2 ^ nat k else 1 / 2 ^ nat (- k))"

definition round_half_even :: "real \<Rightarrow> int" where
  "round_half_even m =
     (let f = \<lfloor>m\<rfloor>; d = m - of_int f
      in if d < 1 / 2 then f
         else if 1 / 2 < d then f + 1
         else if even f then f else f + 1)"

definition fl :: "real \<Rightarrow> real" where
  "fl x =
     (if x = 0 then 0
      else
        let e = ilog2 2200 \<bar>x\<bar>;
            q = max (e - 52) (- 1074)
        in sgn x * of_int (round_half_even (\<bar>x\<bar> / pow2 q)) * pow2 q)"

section \<open>calculate_ev\<close>

text \<open>
  The loop over \<open>resp_probs.items()\<close> with the accumulator \<open>ev\<close>. Only the CALL branch on
  the river calls \<open>estimate_equity\<close>, whose exception leaves the loop. Each product,
  sum and difference is rounded by \<open>fl\<close>, in the order in which Python evaluates the
  expression; \<open>prob\<close> is a decimal literal of the response table, hence \<open>fl prob\<close>.
\<close>

fun ev_loop :: "PokerDecisionModel \<Rightarrow> real \<Rightarrow> (string \<times> real) list \<Rightarrow> real \<Rightarrow> error + real" where
  "ev_loop s bet_size [] ev = Inr ev"
| "ev_loop s bet_size ((resp, prob) # rest) ev =
     (if resp = ''FOLD'' then ev_loop s bet_size rest (fl (ev + fl (fl prob * pot s)))
      else if resp = ''CALL'' then
        (if stage s = RIVER then
           (case estimate_equity s of
              Inl e \<Rightarrow> Inl e
            | Inr equity \<Rightarrow>
                let win_amount = fl (pot s + fl (2 * bet_size)) in
                ev_loop s bet_size rest
                  (fl (ev + fl (fl prob *
                     fl (fl (equity * win_amount) - fl (fl (1 - equity) * bet_size))))))
         else
           let penalty = (if opponent_type s = LOOSE_AGGRESSIVE then fl 1.3 else 1.0) in
           ev_loop s bet_size rest (fl (ev + fl (fl prob * fl (- bet_size * penalty)))))
      else if resp = ''RAISE'' then
        (let penalty = (if opponent_type s = LOOSE_AGGRESSIVE then 1.5 else 1.0) in
         ev_loop s bet_size rest (fl (ev + fl (fl prob * fl (- bet_size * penalty)))))
      else if resp = ''BET'' then ev_loop s bet_size rest (fl (ev + fl (fl prob * 0)))
      else ev_loop s bet_size rest ev)"

definition calculate_ev :: "PokerDecisionModel \<Rightarrow> ActionType \<Rightarrow> real \<Rightarrow> error + real" where
  "calculate_ev s action bet_size =
     (if action = FOLD then Inr 0
      else ev_loop s bet_size (opponent_response s action) 0)"

section \<open>The action policy\<close>

definition get_bluff_action :: "PokerDecisionModel \<Rightarrow> ActionType \<times> real" where
  "get_bluff_action s =
     (if stage s = PREFLOP then (RAISE, 3.0)
      else if opponent_type s = SCAREDY_CAT then (BET, pot s * 0.4)
      else if opponent_type s = TIGHT_PASSIVE then (BET, pot s * 0.6)
      else (BET, pot s * 0.5))"

definition can_take_action :: "PokerDecisionModel \<Rightarrow> ActionType \<Rightarrow> bool" where
  "can_take_action s action_type =
     (if action_type \<in> set [CHECK, FOLD] then True else hero_stack s > 0)"

text \<open>
  \<open>is_bet_in_front\<close> writes \<open>last_bet_amount\<close> when it answers True, so it returns the
  state with its answer.
\<close>

definition is_bet_in_front :: "PokerDecisionModel \<Rightarrow> bool \<times> PokerDecisionModel" where
  "is_bet_in_front s =
     (if history s = [] then (False, s)
      else
        (case last (history s) of (who, act, amt) \<Rightarrow>
           if who = ''VILLAIN'' \<and> act \<in> set [''BET'', ''RAISE'']
           then (True, s\<lparr>last_bet_amount := amt\<rparr>)
           else (False, s)))"

text \<open>The chosen pair together with its EV, or the exception of \<open>calculate_ev\<close>.\<close>

definition with_ev ::
  "PokerDecisionModel \<Rightarrow> ActionType \<Rightarrow> real \<Rightarrow> error + ((ActionType \<times> real) \<times> real)" where
  "with_ev s action sz =
     (case calculate_ev s action sz of
        Inl e \<Rightarrow> Inl e
      | Inr ev \<Rightarrow> Inr ((action, sz), ev))"

text \<open>
  \<open>optimal_action\<close>. The argument \<open>u\<close> is the value that \<open>random.random()\<close> returns, a
  number in \<open>[0, 1)\<close>; it is read only in the branch that draws it.
\<close>

definition optimal_action ::
  "PokerDecisionModel \<Rightarrow> real \<Rightarrow> (error + ((ActionType \<times> real) \<times> real)) \<times> PokerDecisionModel" where
  "optimal_action s u =
     (case is_bet_in_front s of
        (True, s1) \<Rightarrow>
          (let villain_act = fst (snd (last (history s1)));
               call_amt = min (last_bet_amount s1) (hero_stack s1);
               raise_amt = min (last_bet_amount s1 * 2) (hero_stack s1);
               (action, sz) =
                 (if villain_act \<in> set [''CHECK'', ''CALL''] \<and> raise_amt > 0
                  then (RAISE, raise_amt)
                  else if u < 0.7 \<and> raise_amt > call_amt then (RAISE, raise_amt)
                  else (CALL, call_amt))
           in (with_ev s1 action sz, s1))
      | (False, s1) \<Rightarrow>
          if stage s1 = RIVER then
            (let bet_size = min (pot s1 * 0.5) (hero_stack s1)
             in (with_ev s1 BET bet_size, s1))
          else
            (let (action, bet_size0) = get_bluff_action s1;
                 bet_size = min bet_size0 (hero_stack s1)
             in if bet_size > 0 \<and> hero_stack s1 > 0
                then (with_ev s1 action bet_size, s1)
                else (with_ev s1 CHECK 0, s1)))"

section \<open>execute_action\<close>

text \<open>
  \<open>random.choices(population, weights, k=1)[0]\<close> of the standard library, as a function
  of the number \<open>u\<close> in \<open>[0, 1)\<close> that its call of \<open>random()\<close> returns: with the running
  sums of the weights \<open>cum_weights\<close> and their total, it returns the element at the
  insertion point of \<open>u * total\<close> among all running sums but the last. An empty population
  raises IndexError (at \<open>cum_weights[-1]\<close>), a total that is not positive ValueError.
\<close>

fun accumulate :: "real \<Rightarrow> real list \<Rightarrow> real list" where
  "accumulate acc [] = []"
| "accumulate acc (w # ws) = (acc + w) # accumulate (acc + w) ws"

definition choices :: "(string \<times> real) list \<Rightarrow> real \<Rightarrow> error + string" where
  "choices resp_probs u =
     (let population = map fst resp_probs;
          cum_weights = accumulate 0 (map snd resp_probs)
      in if cum_weights = [] then Inl IndexError
         else
           let total = last cum_weights in
           if total \<le> 0 then Inl ValueError
           else Inr (population !
                  length (takeWhile (\<lambda>c. c \<le> u * total) (butlast cum_weights))))"

text \<open>
  \<open>execute_action\<close> returns the sampled response and the updated state. The argument
  \<open>u\<close> is the random number that \<open>random.choices\<close> consumes.
\<close>

definition execute_action ::
  "PokerDecisionModel \<Rightarrow> ActionType \<Rightarrow> real \<Rightarrow> real \<Rightarrow> (error + string) \<times> PokerDecisionModel" where
  "execute_action s action bet_size u =
     (let s1 = s\<lparr>history := history s @ [(''HERO'', action_name action, bet_size)],
                 decision_tree := decision_tree s @
                   [\<lparr>rec_player = ''HERO'', rec_stage = stage_name (stage s),
                     rec_action = action_name action, rec_size = bet_size,
                     rec_pot = pot s, rec_stack = hero_stack s\<rparr>]\<rparr>;
          s2 = (if action = CALL then
                  (let call_amount = min bet_size (hero_stack s1)
                   in s1\<lparr>hero_stack := hero_stack s1 - call_amount,
                         pot := pot s1 + call_amount\<rparr>)
                else if action \<in> set [BET, RAISE, ALL_IN] then
                  (let bet_amount = min bet_size (hero_stack s1)
                   in s1\<lparr>hero_stack := hero_stack s1 - bet_amount,
                         pot := pot s1 + bet_amount\<rparr>)
                else s1)
      in case choices (opponent_response s2 action) u of
           Inl e \<Rightarrow> (Inl e, s2)
         | Inr resp \<Rightarrow>
             (let resp_amount =
                    (if resp = ''CALL'' then min bet_size (villain_stack s2)
                     else if resp = ''RAISE'' then min (bet_size * 2) (villain_stack s2)
                     else if resp = ''BET'' then min (pot s2 * 0.5) (villain_stack s2)
                     else 0);
                  s3 = s2\<lparr>history := history s2 @ [(''VILLAIN'', resp, resp_amount)],
                          decision_tree := decision_tree s2 @
                            [\<lparr>rec_player = ''VILLAIN'', rec_stage = stage_name (stage s2),
                              rec_action = resp, rec_size = resp_amount,
                              rec_pot = pot s2, rec_stack = villain_stack s2\<rparr>]\<rparr>;
                  s4 = (if resp = ''CALL'' then
                          s3\<lparr>villain_stack := villain_stack s3 - resp_amount,
                             pot := pot s3 + resp_amount\<rparr>
                        else if resp = ''RAISE'' then
                          s3\<lparr>villain_stack := villain_stack s3 - resp_amount,
                             pot := pot s3 + resp_amount\<rparr>
                        else if resp = ''BET'' then
                          s3\<lparr>villain_stack := villain_stack s3 - resp_amount,
                             pot := pot s3 + resp_amount\<rparr>
                        else s3)
              in (Inr resp, s4)))"

section \<open>update_stage\<close>

text \<open>
  The ladder PREFLOP, FLOP, TURN, RIVER, SHOWDOWN, which the source writes out twice as an
  \<open>if\<close>/\<open>elif\<close> chain; any other stage is left as it is.
\<close>

fun advance :: "GameStage \<Rightarrow> GameStage" where
  "advance PREFLOP = FLOP"
| "advance FLOP = TURN"
| "advance TURN = RIVER"
| "advance RIVER = SHOWDOWN"
| "advance st = st"

text \<open>\<open>xs[-2:]\<close>, the last two elements (all of them when there are fewer).\<close>

definition last_two :: "'a list \<Rightarrow> 'a list" where
  "last_two xs = drop (length xs - 2) xs"

definition update_stage :: "PokerDecisionModel \<Rightarrow> PokerDecisionModel" where
  "update_stage s =
     (if length (history s) < 2 then s
      else if ''FOLD'' \<in> set (map (\<lambda>action. fst (snd action)) (last_two (history s)))
      then s\<lparr>stage := TERMINAL\<rparr>
      else
        let s1 =
          (if fst (snd (history s ! (length (history s) - 2))) = ''CHECK''
              \<and> fst (snd (last (history s))) = ''CHECK''
           then s\<lparr>stage := advance (stage s)\<rparr>
           else if fst (snd (last (history s))) = ''CALL'' then
             (case is_bet_in_front s of
                (b, s') \<Rightarrow> if \<not> b then s'\<lparr>stage := advance (stage s')\<rparr> else s')
           else s)
        in if hero_stack s1 = 0 \<or> villain_stack s1 = 0
           then s1\<lparr>stage := SHOWDOWN\<rparr>
           else s1)"

section \<open>simulate_hand\<close>

text \<open>
  The \<open>while\<close> loop of \<open>simulate_hand\<close> (with \<open>verbose\<close> printing left out). Each round
  takes a pair of random numbers from the list: the first is the one \<open>optimal_action\<close> may
  draw, the second the one \<open>random.choices\<close> draws in \<open>execute_action\<close>. The loop returns
  \<open>None\<close> when the list is used up before the loop ends. An exception in the \<open>try\<close> block
  is caught and leaves the loop (\<open>break\<close>) with the state as mutated so far.
\<close>

fun hand_loop ::
  "(real \<times> real) list \<Rightarrow> PokerDecisionModel \<Rightarrow> real \<Rightarrow> nat
     \<Rightarrow> (PokerDecisionModel \<times> real \<times> nat) option" where
  "hand_loop [] s total_decision_ev decision_count =
     (if stage s \<in> set [TERMINAL, SHOWDOWN]
      then Some (s, total_decision_ev, decision_count) else None)"
| "hand_loop ((u1, u2) # draws) s total_decision_ev decision_count =
     (if stage s \<in> set [TERMINAL, SHOWDOWN]
      then Some (s, total_decision_ev, decision_count)
      else
        (case optimal_action s u1 of
           (Inl e, s1) \<Rightarrow> Some (s1, total_decision_ev, decision_count)
         | (Inr ((action, bet_size), ev), s1) \<Rightarrow>
             (let total' = total_decision_ev + ev;
                  count' = decision_count + 1;
                  s2 = s1\<lparr>decision_evs := decision_evs s1 @ [ev]\<rparr>
              in case execute_action s2 action bet_size u2 of
                   (Inl e, s3) \<Rightarrow> Some (s3, total', count')
                 | (Inr resp, s3) \<Rightarrow>
                     (let s4 = update_stage s3
                      in if resp = ''FOLD'' then Some (s4\<lparr>stage := TERMINAL\<rparr>, total', count')
                         else if hero_stack s4 = 0 \<or> villain_stack s4 = 0
                         then Some (s4\<lparr>stage := SHOWDOWN\<rparr>, total', count')
                         else hand_loop draws s4 total' count'))))"

text \<open>\<open>xs[-1]\<close>: IndexError on the empty list.\<close>

definition get_last :: "'a list \<Rightarrow> error + 'a" where
  "get_last xs = (if xs = [] then Inl IndexError else Inr (last xs))"

text \<open>
  The returned tuple \<open>(winner, net_profit, total_decision_ev, decision_count, avg_ev)\<close>,
  with the final state of the object. The resolution after the loop is outside the
  \<open>try\<close> block: its exceptions reach the caller (\<open>Inl\<close>). \<open>w\<close> is the random number of the
  showdown draw.
\<close>

type_synonym hand_result = "string \<times> real \<times> real \<times> nat \<times> real"

definition simulate_hand ::
  "PokerDecisionModel \<Rightarrow> (real \<times> real) list \<Rightarrow> real
     \<Rightarrow> (error + (hand_result \<times> PokerDecisionModel)) option" where
  "simulate_hand s draws w =
     (case hand_loop draws s 0 0 of
        None \<Rightarrow> None
      | Some (s1, total_decision_ev, decision_count) \<Rightarrow>
          Some
           (bind_err
             (if stage s1 = TERMINAL then
                bind_err (get_last (history s1)) (\<lambda>last_action.
                  if fst last_action = ''VILLAIN'' \<and> fst (snd last_action) = ''FOLD''
                  then Inr (''Hero'', s1\<lparr>hero_stack := hero_stack s1 + pot s1\<rparr>)
                  else Inr (''Villain'', s1\<lparr>villain_stack := villain_stack s1 + pot s1\<rparr>))
              else
                bind_err (estimate_equity s1) (\<lambda>hero_equity.
                  let hero_wins = (w < hero_equity) in
                  if hero_wins
                  then Inr (''Hero'', s1\<lparr>hero_stack := hero_stack s1 + pot s1\<rparr>)
                  else Inr (''Villain'', s1\<lparr>villain_stack := villain_stack s1 + pot s1\<rparr>)))
             (\<lambda>(winner, s2).
                let net_profit = hero_stack s2 - initial_stack s2;
                    avg_ev = (if decision_count > 0
                              then total_decision_ev / real decision_count else 0)
                in Inr ((winner, net_profit, total_decision_ev, decision_count, avg_ev), s2))))"

section \<open>Concrete states\<close>

text \<open>
  Scenario A: the state after \<open>PokerDecisionModel(SCAREDY_CAT, "BTN", 100)\<close> and
  \<open>start_hand(["7\<diamondsuit>", "2\<clubsuit>"])\<close>.
\<close>

definition scenario_A :: PokerDecisionModel where
  "scenario_A =
     \<lparr>stage = PREFLOP, pot = 1.5, hero_stack = 100, villain_stack = 100,
      hole_cards = [[ord CHR ''7'', diamond], [ord CHR ''2'', club]], history = [],
      initial_stack = 100, last_bet_amount = 0, decision_tree = [], decision_evs = [],
      opponent_type = SCAREDY_CAT\<rparr>"

text \<open>
  The binary64 number that Python prints as \<open>0.6000000000000001\<close>: the successor of the
  binary64 number nearest to 0.6.
\<close>

definition ev_A :: real where
  "ev_A = 1351079888211149 / 2251799813685248"

text \<open>
  A hand with a malformed token: \<open>["10\<spadesuit>", "K\<heartsuit>"]\<close> on the FLOP. The first character
  of the first token is no rank.
\<close>

definition malformed_hand :: PokerDecisionModel where
  "malformed_hand =
     scenario_A\<lparr>stage := FLOP, pot := 4.0,
       hole_cards := [[ord CHR ''1'', ord CHR ''0'', spade], [ord CHR ''K'', heart]]\<rparr>"

text \<open>Well-formed hole cards \<open>["A\<spadesuit>", "K\<spadesuit>"]\<close> in a state whose stage is TERMINAL.\<close>

definition folded_hand :: PokerDecisionModel where
  "folded_hand =
     scenario_A\<lparr>stage := TERMINAL,
       hole_cards := [[ord CHR ''A'', spade], [ord CHR ''K'', spade]]\<rparr>"

text \<open>One-character tokens \<open>["A", "K"]\<close>: the suit is missing.\<close>

definition short_tokens :: PokerDecisionModel where
  "short_tokens = scenario_A\<lparr>hole_cards := [[ord CHR ''A''], [ord CHR ''K'']]\<rparr>"

text \<open>Scenario A with the two hole cards in the other order: \<open>["2\<clubsuit>", "7\<diamondsuit>"]\<close>.\<close>

definition two_seven :: PokerDecisionModel where
  "two_seven =
     scenario_A\<lparr>hole_cards := [[ord CHR ''2'', club], [ord CHR ''7'', diamond]]\<rparr>"

text \<open>
  States reached from scenario A by running the code. The hero raises 3.0; the villain
  calls (random number 0.9) or raises to 6.0 (random number 0.995). After the raise the
  hero calls 6.0 (policy draw 0.9) and the villain checks (random number 0.5).
\<close>

definition villain_called :: PokerDecisionModel where
  "villain_called = snd (execute_action scenario_A RAISE 3.0 0.9)"

definition reraised :: PokerDecisionModel where
  "reraised = update_stage (snd (execute_action scenario_A RAISE 3.0 0.995))"

definition hero_called :: PokerDecisionModel where
  "hero_called = snd (execute_action (snd (optimal_action reraised 0.9)) CALL 6.0 0.5)"

text \<open>
  A hero with a stack of 3.0 raises all of it on the PREFLOP; the villain folds (random
  number 0) or calls (random number 0.9).
\<close>

definition short_stack :: PokerDecisionModel where
  "short_stack = scenario_A\<lparr>hero_stack := 3.0, initial_stack := 3.0\<rparr>"

definition allin_fold :: PokerDecisionModel where
  "allin_fold = snd (execute_action short_stack RAISE 3.0 0)"

definition allin_call :: PokerDecisionModel where
  "allin_call = snd (execute_action short_stack RAISE 3.0 0.9)"

text \<open>
  The state after \<open>start_hand(["A", "K"], river=[...])\<close> against SCAREDY_CAT: the RIVER
  with pot 16.0 and hole-card tokens that lack the suit.
\<close>

definition river_short_tokens :: PokerDecisionModel where
  "river_short_tokens =
     scenario_A\<lparr>stage := RIVER, pot := 16.0,
       hole_cards := [[ord CHR ''A''], [ord CHR ''K'']]\<rparr>"

text \<open>
  The state in which the loop of \<open>simulate_hand\<close> ends on scenario A when the villain folds
  to the first raise (random number 0.5); the EV of that raise is \<open>ev_A\<close>.
\<close>

definition fold_end :: PokerDecisionModel where
  "fold_end =
     (update_stage
        (snd (execute_action (scenario_A\<lparr>decision_evs := [ev_A]\<rparr>) RAISE 3.0 0.5)))
       \<lparr>stage := TERMINAL\<rparr>"

section \<open>Starting states\<close>

text \<open>A hand starts on one of the four streets with an empty history.\<close>

lemma start_hand_stage:
  "stage (start_hand s hero_cards flop turn river) \<in> {PREFLOP, FLOP, TURN, RIVER}
   \<and> history (start_hand s hero_cards flop turn river) = []"
  by (simp add: start_hand_def Let_def)

lemma scenario_A_start:
  "start_hand (init_model SCAREDY_CAT ''BTN'' 100 100)
     [[ord CHR ''7'', diamond], [ord CHR ''2'', club]] False False False = scenario_A"
  by (simp add: start_hand_def init_model_def scenario_A_def)

lemma river_short_tokens_start:
  "start_hand (init_model SCAREDY_CAT ''BTN'' 100 100)
     [[ord CHR ''A''], [ord CHR ''K'']] False False True = river_short_tokens"
  by (simp add: start_hand_def init_model_def river_short_tokens_def scenario_A_def)

section \<open>Binary64 rounding, evaluated\<close>

text \<open>
  Numbers with a short binary expansion are left as they are; the literals 0.1 and 0.8
  become the binary64 numbers that Python shows with \<open>float.as_integer_ratio\<close>; the
  product of \<open>fl 0.8\<close> and 1.5 lies halfway between two binary64 numbers and goes to the
  even one, \<open>1.2000000000000002\<close>.
\<close>

lemma fl_examples:
  "fl 0 = 0" "fl 1.5 = 1.5" "fl 3 = 3" "fl (- 3) = - 3" "fl 16 = 16"
  "fl 0.1 = 3602879701896397 / 36028797018963968"
  "fl 0.8 = 3602879701896397 / 4503599627370496"
  "fl 0.6 = 5404319552844595 / 9007199254740992"
  "fl (fl 0.8 * 1.5) = 1351079888211149 / 1125899906842624"
  by code_simp+

text \<open>
  The EV of (RAISE, 3.0) on scenario A, operation by operation as \<open>ev_loop\<close> computes it:
  1.2000000000000002, then 0.6300000000000001, then 0.6000000000000001.
\<close>

lemma ev_A_steps:
  "fl (0 + fl (fl 0.80 * 1.5)) = 1351079888211149 / 1125899906842624"
  "fl (fl (0 + fl (fl 0.80 * 1.5)) + fl (fl 0.19 * fl (- 3.0 * 1.0)))
     = 2837267765243413 / 4503599627370496"
  "fl (fl (fl (0 + fl (fl 0.80 * 1.5)) + fl (fl 0.19 * fl (- 3.0 * 1.0)))
         + fl (fl 0.01 * fl (- 3.0 * 1.0))) = ev_A"
  by code_simp+

lemma ev_A_not_exact: "ev_A - 0.60 = 1 / (5 * 2 ^ 51)" "ev_A \<noteq> 0.60" "ev_A \<noteq> fl 0.60"
  by code_simp+

lemma calculate_ev_scenario_A:
  assumes "opponent_type s = SCAREDY_CAT" and "stage s = PREFLOP" and "pot s = 1.5"
  shows "calculate_ev s RAISE 3.0 = Inr ev_A"
proof -
  have "calculate_ev s RAISE 3.0 =
      Inr (fl (fl (fl (0 + fl (fl 0.80 * pot s)) + fl (fl 0.19 * fl (- 3.0 * 1.0)))
         + fl (fl 0.01 * fl (- 3.0 * 1.0))))"
    using assms(1,2) by (simp add: calculate_ev_def opponent_response_def)
  then show ?thesis unfolding assms(3) by (simp only: ev_A_steps(3))
qed

lemma scenario_A_policy: "optimal_action scenario_A u = (Inr ((RAISE, 3.0), ev_A), scenario_A)"
proof -
  have "calculate_ev scenario_A RAISE 3.0 = Inr ev_A"
    by (rule calculate_ev_scenario_A) (simp_all add: scenario_A_def)
  moreover have "is_bet_in_front scenario_A = (False, scenario_A)"
    "stage scenario_A = PREFLOP" "hero_stack scenario_A = 100"
    by (simp_all add: is_bet_in_front_def scenario_A_def)
  ultimately show ?thesis
    by (simp add: optimal_action_def get_bluff_action_def with_ev_def)
qed

section \<open>The action policy on scenario A\<close>

text \<open>
  Claim C1, amended. Against SCAREDY_CAT, on the PREFLOP with pot 1.5, a hero stack of at
  least 3.0, the hole cards 7\<diamondsuit> 2\<clubsuit> and no bet in front, \<open>optimal_action\<close> returns
  RAISE with size 3.0, and the EV that \<open>calculate_ev\<close> computes for (RAISE, 3.0) is the
  sum 0.80 * 1.5 + 0.19 * (-3.0) + 0.01 * (-3.0) in binary64 arithmetic, the number
  0.6000000000000001: it exceeds 0.60 by 1 / (5 * 2 ^ 51), less than 10 ^ -16, and is
  equal to 0.60 only up to that rounding.
\<close>

theorem scenario_A_raise:
  assumes "opponent_type s = SCAREDY_CAT" and "stage s = PREFLOP" and "pot s = 1.5"
    and "3.0 \<le> hero_stack s"
    and "hole_cards s = [[ord CHR ''7'', diamond], [ord CHR ''2'', club]]"
    and "\<not> fst (is_bet_in_front s)"
  shows "optimal_action s u = (Inr ((RAISE, 3.0), ev_A), s)
       \<and> calculate_ev s RAISE 3.0 = Inr ev_A
       \<and> ev_A = fl (fl (fl (fl 0.80 * 1.5) + fl (fl 0.19 * (- 3.0))) + fl (fl 0.01 * (- 3.0)))
       \<and> ev_A - 0.60 = 1 / (5 * 2 ^ 51)
       \<and> \<bar>ev_A - 0.60\<bar> < 1 / 10 ^ 16"
proof -
  have ev: "calculate_ev s RAISE 3.0 = Inr ev_A"
    using assms(1-3) by (rule calculate_ev_scenario_A)
  have flag: "is_bet_in_front s = (False, s)"
    using assms(6) by (auto simp: is_bet_in_front_def split: if_splits prod.splits)
  have pol: "optimal_action s u = (Inr ((RAISE, 3.0), ev_A), s)"
    using assms(2,4) ev flag
    by (simp add: optimal_action_def get_bluff_action_def with_ev_def)
  have val: "ev_A = fl (fl (fl (fl 0.80 * 1.5) + fl (fl 0.19 * (- 3.0))) + fl (fl 0.01 * (- 3.0)))"
    "ev_A - 0.60 = 1 / (5 * 2 ^ 51)" "\<bar>ev_A - 0.60\<bar> < 1 / 10 ^ 16"
    by code_simp+
  from pol ev val show ?thesis by blast
qed

theorem scenario_A_raise_witness:
  "opponent_type scenario_A = SCAREDY_CAT \<and> stage scenario_A = PREFLOP
   \<and> pot scenario_A = 1.5 \<and> 3.0 \<le> hero_stack scenario_A
   \<and> hole_cards scenario_A = [[ord CHR ''7'', diamond], [ord CHR ''2'', club]]
   \<and> \<not> fst (is_bet_in_front scenario_A)
   \<and> optimal_action scenario_A 0 = (Inr ((RAISE, 3.0), ev_A), scenario_A)
   \<and> calculate_ev scenario_A RAISE 3.0 = Inr ev_A"
  using scenario_A_raise [of scenario_A 0]
  by (simp add: scenario_A_def is_bet_in_front_def)

text \<open>
  The claim as written says that the EV equals exactly 0.60. On scenario A the EV is
  neither the real number 0.60 nor the binary64 number that the literal \<open>0.60\<close> denotes.
\<close>

theorem scenario_A_ev_counterexample:
  "opponent_type scenario_A = SCAREDY_CAT \<and> stage scenario_A = PREFLOP
   \<and> pot scenario_A = 1.5 \<and> 3.0 \<le> hero_stack scenario_A
   \<and> hole_cards scenario_A = [[ord CHR ''7'', diamond], [ord CHR ''2'', club]]
   \<and> \<not> fst (is_bet_in_front scenario_A)
   \<and> calculate_ev scenario_A RAISE 3.0 = Inr ev_A
   \<and> calculate_ev scenario_A RAISE 3.0 \<noteq> Inr 0.60
   \<and> calculate_ev scenario_A RAISE 3.0 \<noteq> Inr (fl 0.60)
   \<and> fst (optimal_action scenario_A 0) \<noteq> Inr ((RAISE, 3.0), 0.60)"
proof -
  have ev: "calculate_ev scenario_A RAISE 3.0 = Inr ev_A"
    by (rule calculate_ev_scenario_A) (simp_all add: scenario_A_def)
  show ?thesis
    using ev ev_A_not_exact scenario_A_policy [of 0]
    by (simp add: scenario_A_def is_bet_in_front_def)
qed

section \<open>Stacks and pot in execute_action\<close>

lemma choices_opponent_response:
  "\<exists>resp. choices (opponent_response s a) u = Inr resp"
  by (simp add: choices_def opponent_response_def Let_def)

lemma opponent_response_update [simp]:
  "opponent_response (history_update fh s) a = opponent_response s a"
  "opponent_response (decision_tree_update fd s) a = opponent_response s a"
  "opponent_response (hero_stack_update fr s) a = opponent_response s a"
  "opponent_response (pot_update fr s) a = opponent_response s a"
  by (simp_all add: opponent_response_def)





section \<open>The range of estimate_equity\<close>

lemma index_absent: "x \<notin> set xs \<Longrightarrow> index xs x = Inl ValueError"
  by (induction xs) (auto simp: bind_err_def)

text \<open>A token that is empty or does not start with a rank contributes 0.3.\<close>

lemma rank_value_default:
  "card_token = [] \<or> hd card_token \<notin> set card_ranks \<Longrightarrow> rank_value card_token = 0.3"
  by (cases card_token) (auto simp: rank_value_def get_def bind_err_def index_absent)

lemma stage_factor_Inl: "stage_factor st = Inl e \<Longrightarrow> st = TERMINAL"
  by (cases st) simp_all

lemma stage_factor_Inr: "st \<noteq> TERMINAL \<Longrightarrow> \<exists>f. stage_factor st = Inr f"
  by (cases "stage_factor st") (auto dest: stage_factor_Inl)

lemma clamp_range:
  "(0.05::real) \<le> max 0.05 (min 0.95 x) \<and> max 0.05 (min 0.95 x) \<le> (0.95::real)"
  by (simp add: max_def min_def)

lemma equity_body_clamped:
  assumes "hole_cards s = [c0, c1]" and "2 \<le> length c0" and "2 \<le> length c1"
    and "stage s \<noteq> TERMINAL"
  shows "\<exists>x. equity_body s = Inr (max 0.05 (min 0.95 x))"
proof -
  obtain f where f: "stage_factor (stage s) = Inr f"
    using stage_factor_Inr [OF assms(4)] by blast
  show ?thesis
    using assms(1-3) f by (auto simp: equity_body_def get_def bind_err_def Let_def)
qed

text \<open>
  Claim C3, amended. For every pair of hole-card tokens of at least two characters each
  (a token whose first character is no rank included: its rank component is 0.3) and every
  stage other than TERMINAL, \<open>estimate_equity\<close> returns without error a number in the
  closed interval from 0.05 to 0.95.
\<close>

theorem estimate_equity_range:
  assumes "hole_cards s = [c0, c1]" and "2 \<le> length c0" and "2 \<le> length c1"
    and "stage s \<noteq> TERMINAL"
  shows "(\<exists>e. estimate_equity s = Inr e \<and> 0.05 \<le> e \<and> e \<le> 0.95)
       \<and> (hd c0 \<notin> set card_ranks \<longrightarrow> rank_value c0 = 0.3)
       \<and> (hd c1 \<notin> set card_ranks \<longrightarrow> rank_value c1 = 0.3)"
proof -
  obtain x where x: "equity_body s = Inr (max 0.05 (min 0.95 x))"
    using equity_body_clamped [OF assms] by blast
  have "estimate_equity s = Inr 0.05 \<or> estimate_equity s = equity_body s"
    using assms(1) by (simp add: estimate_equity_def get_def bind_err_def)
  then have "\<exists>e. estimate_equity s = Inr e \<and> 0.05 \<le> e \<and> e \<le> 0.95"
  proof
    assume "estimate_equity s = Inr 0.05"
    then show ?thesis by (intro exI [where x = "0.05"]) simp
  next
    assume "estimate_equity s = equity_body s"
    with x clamp_range [of x] show ?thesis
      by (intro exI [where x = "max 0.05 (min 0.95 x)"]) simp
  qed
  then show ?thesis
    by (simp add: rank_value_default)
qed

text \<open>The hand \<open>["10\<spadesuit>", "K\<heartsuit>"]\<close> on the FLOP: the token "10\<spadesuit>" counts 0.3.\<close>

theorem estimate_equity_range_witness:
  "hole_cards malformed_hand = [[ord CHR ''1'', ord CHR ''0'', spade], [ord CHR ''K'', heart]]
   \<and> 2 \<le> length [ord CHR ''1'', ord CHR ''0'', spade] \<and> 2 \<le> length [ord CHR ''K'', heart]
   \<and> stage malformed_hand \<noteq> TERMINAL
   \<and> (\<exists>e. estimate_equity malformed_hand = Inr e \<and> 0.05 \<le> e \<and> e \<le> 0.95)
   \<and> rank_value [ord CHR ''1'', ord CHR ''0'', spade] = 0.3"
  using estimate_equity_range
    [of malformed_hand "[ord CHR ''1'', ord CHR ''0'', spade]" "[ord CHR ''K'', heart]"]
  by (simp add: malformed_hand_def scenario_A_def card_ranks_def ord_def)

text \<open>
  TERMINAL is a stage value, and the stage table of \<open>estimate_equity\<close> has no entry for
  it: with well-formed hole cards the call raises KeyError.
\<close>

theorem estimate_equity_terminal_counterexample:
  "hole_cards folded_hand = [[ord CHR ''A'', spade], [ord CHR ''K'', spade]]
   \<and> stage folded_hand = TERMINAL
   \<and> estimate_equity folded_hand = Inl KeyError"
  by (simp add: folded_hand_def scenario_A_def estimate_equity_def equity_body_def
      get_def bind_err_def ord_def Let_def)

text \<open>
  A token of fewer than two characters is outside the amended claim: the suit comparison
  reads \<open>hole_cards[0][1]\<close> outside the \<open>try\<close> block and raises IndexError.
\<close>

lemma estimate_equity_short_tokens: "estimate_equity short_tokens = Inl IndexError"
  by (simp add: short_tokens_def scenario_A_def estimate_equity_def equity_body_def
      get_def bind_err_def ord_def Let_def)

section \<open>The pinned hand 7-2\<close>

text \<open>
  With a "7" in the first token and a "2" in the second, \<open>estimate_equity\<close> returns 0.05
  whatever the suits, the lengths of the tokens and the stage are.
\<close>

lemma estimate_equity_seven_two:
  assumes "hole_cards s = [c0, c1]" and "ord CHR ''7'' \<in> set c0" and "ord CHR ''2'' \<in> set c1"
  shows "estimate_equity s = Inr 0.05"
  using assms by (simp add: estimate_equity_def get_def bind_err_def)

text \<open>
  Claim C4 says the hand with ranks "7" and "2" is pinned to 0.05 in either order of the two
  cards. The test of the source reads the "7" in the first card and the "2" in the second
  only: for \<open>["2\<clubsuit>", "7\<diamondsuit>"]\<close> on the PREFLOP the result is
  ((0 + 5/12) / 2) * 0.8 = 1/6, not 0.05.
\<close>

theorem estimate_equity_two_seven:
  "hole_cards two_seven = [[ord CHR ''2'', club], [ord CHR ''7'', diamond]]
   \<and> stage two_seven = PREFLOP
   \<and> estimate_equity two_seven = Inr (1 / 6)
   \<and> estimate_equity two_seven \<noteq> Inr 0.05"
  by (simp add: two_seven_def scenario_A_def estimate_equity_def equity_body_def
      rank_value_def card_ranks_def get_def bind_err_def ord_def club_def diamond_def Let_def)

section \<open>The concrete states, evaluated\<close>

lemmas eval_defs = execute_action_def scenario_A_def choices_def opponent_response_def Let_def
  update_stage_def last_two_def is_bet_in_front_def

lemma villain_called_eval:
  "history villain_called = [(''HERO'', ''RAISE'', 3), (''VILLAIN'', ''CALL'', 3)]
   \<and> stage villain_called = PREFLOP \<and> hero_stack villain_called = 97
   \<and> villain_stack villain_called = 97 \<and> pot villain_called = 7.5"
  by (simp add: villain_called_def eval_defs)

lemma reraised_eval:
  "history reraised = [(''HERO'', ''RAISE'', 3), (''VILLAIN'', ''RAISE'', 6)]
   \<and> stage reraised = PREFLOP \<and> hero_stack reraised = 97
   \<and> villain_stack reraised = 94 \<and> pot reraised = 10.5 \<and> opponent_type reraised = SCAREDY_CAT"
  by (simp add: reraised_def eval_defs)

lemma hero_called_eval:
  "history hero_called = [(''HERO'', ''RAISE'', 3), (''VILLAIN'', ''RAISE'', 6),
       (''HERO'', ''CALL'', 6), (''VILLAIN'', ''CHECK'', 0)]
   \<and> stage hero_called = PREFLOP \<and> hero_stack hero_called = 91
   \<and> villain_stack hero_called = 94"
  using reraised_eval
  by (simp add: hero_called_def optimal_action_def is_bet_in_front_def execute_action_def
      choices_def opponent_response_def Let_def)

lemma allin_call_eval:
  "history allin_call = [(''HERO'', ''RAISE'', 3), (''VILLAIN'', ''CALL'', 3)]
   \<and> stage allin_call = PREFLOP \<and> hero_stack allin_call = 0"
  by (simp add: allin_call_def short_stack_def eval_defs)

lemma allin_fold_eval:
  "history allin_fold = [(''HERO'', ''RAISE'', 3), (''VILLAIN'', ''FOLD'', 0)]
   \<and> stage allin_fold = PREFLOP \<and> hero_stack allin_fold = 0"
  by (simp add: allin_fold_def short_stack_def eval_defs)

section \<open>is_bet_in_front\<close>

text \<open>The flag is true only when the last history entry is a BET or RAISE of the villain.\<close>

lemma is_bet_in_front_True:
  assumes "fst (is_bet_in_front s)"
  shows "history s \<noteq> [] \<and> fst (last (history s)) = ''VILLAIN''
       \<and> fst (snd (last (history s))) \<in> {''BET'', ''RAISE''}
       \<and> is_bet_in_front s = (True, s\<lparr>last_bet_amount := snd (snd (last (history s)))\<rparr>)"
  using assms by (auto simp: is_bet_in_front_def split: if_splits prod.splits)

lemma is_bet_in_front_False:
  "\<not> fst (is_bet_in_front s) \<Longrightarrow> is_bet_in_front s = (False, s)"
  by (auto simp: is_bet_in_front_def split: if_splits prod.splits)

lemma is_bet_in_front_CALL:
  "fst (snd (last (history s))) = ''CALL'' \<Longrightarrow> is_bet_in_front s = (False, s)"
  by (auto simp: is_bet_in_front_def split: if_splits prod.splits)

lemma equity_body_last_bet_amount [simp]:
  "equity_body (s\<lparr>last_bet_amount := x\<rparr>) = equity_body s"
  by (simp add: equity_body_def Let_def cong: if_cong)

lemma estimate_equity_last_bet_amount [simp]:
  "estimate_equity (s\<lparr>last_bet_amount := x\<rparr>) = estimate_equity s"
  by (simp add: estimate_equity_def cong: if_cong)

lemma is_bet_in_front_state: "\<exists>x. snd (is_bet_in_front s) = s\<lparr>last_bet_amount := x\<rparr>"
proof (cases "fst (is_bet_in_front s)")
  case True
  from is_bet_in_front_True [OF True] show ?thesis by auto
next
  case False
  have "s = s\<lparr>last_bet_amount := last_bet_amount s\<rparr>" by simp
  with is_bet_in_front_False [OF False] show ?thesis by (metis snd_conv)
qed

section \<open>The stage advance after a call\<close>

text \<open>
  Claim C5, amended. In \<open>update_stage\<close>, when the history has at least two entries, no
  fold occurred in the last two and they are not both CHECK, the stage advances one step
  along PREFLOP, FLOP, TURN, RIVER, SHOWDOWN exactly when the last history entry, whoever
  made it, has action CALL; no villain bet is outstanding then, since the flag needs a BET
  or RAISE as last entry. In \<open>simulate_hand\<close> the last entry is the villain's response:
  the hero's last entry does not decide the advance. Afterwards a stack equal to 0 forces
  SHOWDOWN.
\<close>

theorem update_stage_call_rule:
  assumes "2 \<le> length (history s)"
    and "''FOLD'' \<notin> set (map (\<lambda>action. fst (snd action)) (last_two (history s)))"
    and "\<not> (fst (snd (history s ! (length (history s) - 2))) = ''CHECK''
            \<and> fst (snd (last (history s))) = ''CHECK'')"
  shows "stage (update_stage s) =
           (if hero_stack s = 0 \<or> villain_stack s = 0 then SHOWDOWN
            else if fst (snd (last (history s))) = ''CALL'' then advance (stage s)
            else stage s)
       \<and> (if fst (snd (last (history s))) = ''CALL'' then \<not> fst (is_bet_in_front s) else True)"
  using assms by (auto simp: update_stage_def is_bet_in_front_CALL Let_def)

text \<open>The villain calls the hero's raise: the stage advances from PREFLOP to FLOP.\<close>

theorem update_stage_call_rule_witness:
  "2 \<le> length (history villain_called)
   \<and> ''FOLD'' \<notin> set (map (\<lambda>action. fst (snd action)) (last_two (history villain_called)))
   \<and> \<not> (fst (snd (history villain_called ! (length (history villain_called) - 2))) = ''CHECK''
         \<and> fst (snd (last (history villain_called))) = ''CHECK'')
   \<and> last (history villain_called) = (''VILLAIN'', ''CALL'', 3)
   \<and> stage villain_called = PREFLOP
   \<and> stage (update_stage villain_called) = FLOP"
  using update_stage_call_rule [of villain_called] villain_called_eval
  by (simp add: last_two_def)

text \<open>
  The claim as written fails in both directions. In \<open>hero_called\<close> the hero's last entry
  is a CALL and no bet is outstanding, and the stage stays PREFLOP; in \<open>villain_called\<close>
  the hero's last entry is a RAISE, and the stage advances to FLOP.
\<close>

theorem update_stage_hero_call_counterexample:
  "''FOLD'' \<notin> set (map (\<lambda>action. fst (snd action)) (last_two (history hero_called)))
   \<and> \<not> (fst (snd (history hero_called ! (length (history hero_called) - 2))) = ''CHECK''
         \<and> fst (snd (last (history hero_called))) = ''CHECK'')
   \<and> last (filter (\<lambda>e. fst e = ''HERO'') (history hero_called)) = (''HERO'', ''CALL'', 6)
   \<and> \<not> fst (is_bet_in_front hero_called)
   \<and> stage hero_called = PREFLOP
   \<and> stage (update_stage hero_called) = PREFLOP
   \<and> ''FOLD'' \<notin> set (map (\<lambda>action. fst (snd action)) (last_two (history villain_called)))
   \<and> \<not> (fst (snd (history villain_called ! (length (history villain_called) - 2))) = ''CHECK''
         \<and> fst (snd (last (history villain_called))) = ''CHECK'')
   \<and> last (filter (\<lambda>e. fst e = ''HERO'') (history villain_called)) = (''HERO'', ''RAISE'', 3)
   \<and> stage villain_called = PREFLOP
   \<and> stage (update_stage villain_called) = FLOP"
  using hero_called_eval villain_called_eval
  by (simp add: update_stage_def last_two_def is_bet_in_front_def Let_def)

section \<open>An empty stack in update_stage\<close>

text \<open>
  Claim C6, amended. For every state in which the hero's or the villain's stack is exactly
  0 and the history has at least two entries, \<open>update_stage\<close> leaves the stage equal to
  SHOWDOWN, overriding the two stage-advance rules, unless one of the last two history
  entries is a FOLD: the fold rule returns first and the stage is TERMINAL. With fewer than
  two entries the stage is unchanged.
\<close>

theorem update_stage_empty_stack:
  assumes "hero_stack s = 0 \<or> villain_stack s = 0"
  shows "stage (update_stage s) =
           (if length (history s) < 2 then stage s
            else if ''FOLD'' \<in> set (map (\<lambda>action. fst (snd action)) (last_two (history s)))
            then TERMINAL
            else SHOWDOWN)"
  using assms
  by (auto simp: update_stage_def Let_def is_bet_in_front_def split: prod.splits)

text \<open>
  The hero's whole stack is called: the call rule would advance to FLOP, the empty stack
  forces SHOWDOWN.
\<close>

theorem update_stage_empty_stack_witness:
  "hero_stack allin_call = 0
   \<and> history allin_call = [(''HERO'', ''RAISE'', 3), (''VILLAIN'', ''CALL'', 3)]
   \<and> stage allin_call = PREFLOP
   \<and> stage (update_stage allin_call) = SHOWDOWN"
  using update_stage_empty_stack [of allin_call] allin_call_eval
  by (simp add: last_two_def)

text \<open>The villain folds to the raise of the hero's whole stack: TERMINAL, not SHOWDOWN.\<close>

theorem update_stage_fold_counterexample:
  "hero_stack allin_fold = 0
   \<and> history allin_fold = [(''HERO'', ''RAISE'', 3), (''VILLAIN'', ''FOLD'', 0)]
   \<and> stage (update_stage allin_fold) = TERMINAL
   \<and> stage (update_stage allin_fold) \<noteq> SHOWDOWN"
  using allin_fold_eval
  by (simp add: update_stage_def last_two_def Let_def)

section \<open>The policy with a bet in front\<close>

text \<open>
  Whenever \<open>is_bet_in_front\<close> is true, the recorded villain action in the last history
  entry is BET or RAISE. With \<open>call_amt = min(last_bet_amount, hero_stack)\<close> and
  \<open>raise_amt = min(last_bet_amount * 2, hero_stack)\<close>, \<open>optimal_action\<close> then chooses
  (RAISE, raise_amt) when the draw is below 0.7 and \<open>raise_amt > call_amt\<close>, and
  (CALL, call_amt) otherwise.
\<close>

lemma bet_in_front_policy:
  assumes "fst (is_bet_in_front s)"
  shows "fst (snd (last (history s))) \<in> {''BET'', ''RAISE''}
       \<and> fst (snd (last (history s))) \<notin> {''CHECK'', ''CALL''}
       \<and> (let s1 = s\<lparr>last_bet_amount := snd (snd (last (history s)))\<rparr>;
               call_amt = min (last_bet_amount s1) (hero_stack s1);
               raise_amt = min (last_bet_amount s1 * 2) (hero_stack s1)
           in optimal_action s u =
                (if u < 0.7 \<and> raise_amt > call_amt
                 then (with_ev s1 RAISE raise_amt, s1)
                 else (with_ev s1 CALL call_amt, s1)))"
proof -
  from is_bet_in_front_True [OF assms]
  have act: "fst (snd (last (history s))) \<in> {''BET'', ''RAISE''}"
    and flag: "is_bet_in_front s = (True, s\<lparr>last_bet_amount := snd (snd (last (history s)))\<rparr>)"
    by simp_all
  from act have no: "fst (snd (last (history s))) \<notin> {''CHECK'', ''CALL''}"
    by auto
  show ?thesis
    using act no flag by (auto simp: optimal_action_def Let_def)
qed

text \<open>Facing the villain's raise to 6.0: RAISE 12.0 on the draw 0.5, CALL 6.0 on 0.9.\<close>

lemma bet_in_front_policy_reraised:
  "fst (is_bet_in_front reraised)
   \<and> last (history reraised) = (''VILLAIN'', ''RAISE'', 6)
   \<and> (\<exists>ev. fst (optimal_action reraised 0.5) = Inr ((RAISE, 12), ev))
   \<and> (\<exists>ev. fst (optimal_action reraised 0.9) = Inr ((CALL, 6), ev))"
  using bet_in_front_policy [of reraised "0.5"] bet_in_front_policy [of reraised "0.9"]
    reraised_eval
  by (simp add: is_bet_in_front_def with_ev_def calculate_ev_def opponent_response_def Let_def)

text \<open>No state has the flag true while the recorded villain action is CHECK or CALL.\<close>

lemma reraise_branch_dead:
  "\<not> (\<exists>s. fst (is_bet_in_front s) \<and> fst (snd (last (history s))) \<in> set [''CHECK'', ''CALL''])"
  using is_bet_in_front_True by fastforce

lemma villain_called_flop:
  "history (update_stage villain_called) = [(''HERO'', ''RAISE'', 3), (''VILLAIN'', ''CALL'', 3)]
   \<and> stage (update_stage villain_called) = FLOP
   \<and> hero_stack (update_stage villain_called) = 97
   \<and> pot (update_stage villain_called) = 7.5
   \<and> last_bet_amount (update_stage villain_called) = 0
   \<and> opponent_type (update_stage villain_called) = SCAREDY_CAT"
  by (simp add: villain_called_def eval_defs)

text \<open>
  Claim C7 says that under the bet-in-front flag a recorded villain action CHECK or CALL
  with \<open>raise_amt > 0\<close> makes \<open>optimal_action\<close> return (RAISE, raise_amt), and that this
  branch fires in some reachable state. The branch, commented "if the villain only checks
  or calls, the hero always re-raises", stands inside the test of \<open>is_bet_in_front\<close>, which
  is true for BET and RAISE only: no state reaches it. In scenario A, after the hero's
  RAISE 3.0 is answered by CALL, the flag is false and the hero does not re-raise but BETs
  0.4 * 7.5 = 3.0.
\<close>

theorem villain_call_not_reraised:
  "last (history (update_stage villain_called)) = (''VILLAIN'', ''CALL'', 3)
   \<and> stage (update_stage villain_called) = FLOP
   \<and> \<not> fst (is_bet_in_front (update_stage villain_called))
   \<and> (\<exists>ev. fst (optimal_action (update_stage villain_called) 0) = Inr ((BET, 3.0), ev))
   \<and> \<not> (\<exists>s. fst (is_bet_in_front s)
            \<and> fst (snd (last (history s))) \<in> set [''CHECK'', ''CALL''])"
proof -
  have flag: "is_bet_in_front (update_stage villain_called) = (False, update_stage villain_called)"
    using villain_called_flop by (simp add: is_bet_in_front_def)
  have "\<exists>ev. fst (optimal_action (update_stage villain_called) 0) = Inr ((BET, 3.0), ev)"
    using villain_called_flop flag
    by (simp add: optimal_action_def get_bluff_action_def with_ev_def calculate_ev_def
        opponent_response_def)
  with villain_called_flop flag reraise_branch_dead show ?thesis by simp
qed

section \<open>The decision log\<close>

text \<open>
  Claim C9, amended. Each of the two records that \<open>execute_action\<close> appends to
  \<open>decision_tree\<close> carries the pot and the acting player's stack as they stand before that
  player's contribution is applied: the HERO record the pot and hero stack at entry, the
  VILLAIN record the pot after the hero's contribution only and the villain's stack at
  entry.
\<close>

theorem decision_tree_records:
  "\<exists>resp s'. execute_action s action bet_size u = (Inr resp, s')
     \<and> decision_tree s' = decision_tree s @
         [\<lparr>rec_player = ''HERO'', rec_stage = stage_name (stage s),
           rec_action = action_name action, rec_size = bet_size,
           rec_pot = pot s, rec_stack = hero_stack s\<rparr>,
          \<lparr>rec_player = ''VILLAIN'', rec_stage = stage_name (stage s),
           rec_action = resp, rec_size = villain_stack s - villain_stack s',
           rec_pot = pot s + (hero_stack s - hero_stack s'),
           rec_stack = villain_stack s\<rparr>]"
proof -
  obtain resp where r: "choices (opponent_response s action) u = Inr resp"
    using choices_opponent_response by blast
  then show ?thesis
    by (cases action) (simp_all add: execute_action_def Let_def)
qed

text \<open>
  In scenario A the hero raises 3.0 and the villain calls: the HERO record holds pot 1.5
  and stack 100 (after the raise: 4.5 and 97), the VILLAIN record pot 4.5 and stack 100
  (after the call: 7.5 and 97).
\<close>

theorem decision_tree_records_counterexample:
  "fst (execute_action scenario_A RAISE 3.0 0.9) = Inr ''CALL''
   \<and> rec_player (decision_tree villain_called ! 0) = ''HERO''
   \<and> rec_pot (decision_tree villain_called ! 0) = 1.5
   \<and> rec_stack (decision_tree villain_called ! 0) = 100
   \<and> pot scenario_A + (hero_stack scenario_A - hero_stack villain_called) = 4.5
   \<and> hero_stack villain_called = 97
   \<and> rec_player (decision_tree villain_called ! 1) = ''VILLAIN''
   \<and> rec_pot (decision_tree villain_called ! 1) = 4.5
   \<and> rec_stack (decision_tree villain_called ! 1) = 100
   \<and> pot villain_called = 7.5
   \<and> villain_stack villain_called = 97"
  by (simp add: villain_called_def eval_defs)

section \<open>What optimal_action returns\<close>

lemma ev_loop_Inl:
  "ev_loop s bet_size resp_probs ev = Inl e \<Longrightarrow> estimate_equity s = Inl e"
  by (induction s bet_size resp_probs ev rule: ev_loop.induct)
     (auto simp: Let_def split: if_splits sum.splits)

lemma with_ev_Inl: "with_ev s action sz = Inl e \<Longrightarrow> estimate_equity s = Inl e"
  by (auto simp: with_ev_def calculate_ev_def split: sum.splits if_splits dest: ev_loop_Inl)

lemma with_ev_Inr: "with_ev s action sz = Inr ((a, b), ev) \<Longrightarrow> a = action \<and> b = sz"
  by (auto simp: with_ev_def split: sum.splits)

lemma optimal_action_state: "snd (optimal_action s u) = snd (is_bet_in_front s)"
  by (cases "is_bet_in_front s") (auto simp: optimal_action_def Let_def split: prod.splits bool.splits)

lemma optimal_action_result:
  "\<exists>action sz. action \<in> {CHECK, CALL, BET, RAISE}
      \<and> fst (optimal_action s u) = with_ev (snd (is_bet_in_front s)) action sz"
  by (cases "is_bet_in_front s")
     (auto simp: optimal_action_def get_bluff_action_def Let_def split: prod.splits bool.splits)

lemma optimal_action_Inl:
  assumes "fst (optimal_action s u) = Inl e"
  shows "estimate_equity (snd (optimal_action s u)) = Inl e"
proof -
  obtain a0 sz0 where "fst (optimal_action s u) = with_ev (snd (is_bet_in_front s)) a0 sz0"
    using optimal_action_result [of s u] by blast
  with assms have "with_ev (snd (is_bet_in_front s)) a0 sz0 = Inl e" by simp
  from with_ev_Inl [OF this] show ?thesis by (simp add: optimal_action_state)
qed

lemma optimal_action_stage [simp]: "stage (snd (optimal_action s u)) = stage s"
  using is_bet_in_front_state [of s] by (auto simp: optimal_action_state)

text \<open>
  The sizes that \<open>optimal_action\<close> passes on are never negative when pot, hero stack and
  the amount of the last history entry are not.
\<close>

lemma optimal_action_size_nonneg:
  assumes "0 \<le> pot s" and "0 \<le> hero_stack s"
    and "history s \<noteq> [] \<Longrightarrow> 0 \<le> snd (snd (last (history s)))"
    and "fst (optimal_action s u) = Inr ((action, sz), ev)"
  shows "0 \<le> sz"
proof (cases "fst (is_bet_in_front s)")
  case True
  from is_bet_in_front_True [OF True]
  have ne: "history s \<noteq> []"
    and flag: "is_bet_in_front s = (True, s\<lparr>last_bet_amount := snd (snd (last (history s)))\<rparr>)"
    by simp_all
  show ?thesis
    using assms(2,4) assms(3) [OF ne] flag
    by (auto simp: optimal_action_def Let_def split: if_splits dest!: with_ev_Inr)
next
  case False
  from is_bet_in_front_False [OF False] assms(1,2,4) show ?thesis
    by (auto simp: optimal_action_def get_bluff_action_def Let_def
        split: if_splits dest!: with_ev_Inr)
qed

section \<open>One round of the loop\<close>

lemma execute_action_history:
  "\<exists>resp amt s'. execute_action s action bet_size u = (Inr resp, s')
     \<and> stage s' = stage s
     \<and> history s' = history s @
          [(''HERO'', action_name action, bet_size),
           (''VILLAIN'', resp, if resp = ''FOLD'' then 0 else amt)]"
proof -
  obtain resp where r: "choices (opponent_response s action) u = Inr resp"
    using choices_opponent_response by blast
  then show ?thesis
    by (cases action) (simp_all add: execute_action_def Let_def)
qed

lemma update_stage_history [simp]: "history (update_stage s) = history s"
  by (auto simp: update_stage_def Let_def is_bet_in_front_def split: prod.splits)

lemma advance_TERMINAL: "advance st = TERMINAL \<Longrightarrow> st = TERMINAL"
  by (cases st) simp_all

lemma update_stage_TERMINAL:
  assumes "stage (update_stage s) = TERMINAL" and "stage s \<noteq> TERMINAL"
  shows "''FOLD'' \<in> set (map (\<lambda>action. fst (snd action)) (last_two (history s)))"
  using assms
  by (auto simp: update_stage_def Let_def is_bet_in_front_def
      split: prod.splits if_splits dest: advance_TERMINAL)

text \<open>
  One round of the loop in which \<open>optimal_action\<close> returns: the hero's action is not a
  FOLD, \<open>execute_action\<close> appends the hero's and the villain's entry, and the loop goes on
  from the state after \<open>update_stage\<close> unless the villain folded or a stack is empty.
\<close>

lemma hand_loop_round:
  assumes "stage s \<notin> set [TERMINAL, SHOWDOWN]"
    and "fst (optimal_action s u1) = Inr ((action, bet_size), ev)"
  shows "\<exists>resp amt s3.
      stage s3 = stage s
    \<and> action \<in> {CHECK, CALL, BET, RAISE}
    \<and> history s3 = history s @
          [(''HERO'', action_name action, bet_size),
           (''VILLAIN'', resp, if resp = ''FOLD'' then 0 else amt)]
    \<and> hand_loop ((u1, u2) # draws) s tot cnt =
        (if resp = ''FOLD'' then Some ((update_stage s3)\<lparr>stage := TERMINAL\<rparr>, tot + ev, cnt + 1)
         else if hero_stack (update_stage s3) = 0 \<or> villain_stack (update_stage s3) = 0
         then Some ((update_stage s3)\<lparr>stage := SHOWDOWN\<rparr>, tot + ev, cnt + 1)
         else hand_loop draws (update_stage s3) (tot + ev) (cnt + 1))"
proof -
  obtain x where sa: "snd (optimal_action s u1) = s\<lparr>last_bet_amount := x\<rparr>"
    using is_bet_in_front_state [of s] by (auto simp: optimal_action_state)
  obtain a0 sz0 where a0: "a0 \<in> {CHECK, CALL, BET, RAISE}"
    and "fst (optimal_action s u1) = with_ev (snd (is_bet_in_front s)) a0 sz0"
    using optimal_action_result [of s u1] by blast
  then have "with_ev (snd (is_bet_in_front s)) a0 sz0 = Inr ((action, bet_size), ev)"
    using assms(2) by simp
  from with_ev_Inr [OF this] a0 have act: "action \<in> {CHECK, CALL, BET, RAISE}"
    by simp
  define s2 where "s2 = (s\<lparr>last_bet_amount := x\<rparr>)\<lparr>decision_evs :=
     decision_evs (s\<lparr>last_bet_amount := x\<rparr>) @ [ev]\<rparr>"
  obtain resp amt s3 where ex: "execute_action s2 action bet_size u2 = (Inr resp, s3)"
    and st3: "stage s3 = stage s2"
    and h3: "history s3 = history s2 @
      [(''HERO'', action_name action, bet_size),
       (''VILLAIN'', resp, if resp = ''FOLD'' then 0 else amt)]"
    using execute_action_history [of s2 action bet_size u2] by blast
  have opt: "optimal_action s u1 = (Inr ((action, bet_size), ev), s\<lparr>last_bet_amount := x\<rparr>)"
    using assms(2) sa by (cases "optimal_action s u1") auto
  have "hand_loop ((u1, u2) # draws) s tot cnt =
    (if resp = ''FOLD'' then Some ((update_stage s3)\<lparr>stage := TERMINAL\<rparr>, tot + ev, cnt + 1)
     else if hero_stack (update_stage s3) = 0 \<or> villain_stack (update_stage s3) = 0
     then Some ((update_stage s3)\<lparr>stage := SHOWDOWN\<rparr>, tot + ev, cnt + 1)
     else hand_loop draws (update_stage s3) (tot + ev) (cnt + 1))"
    using assms(1) opt ex by (simp add: s2_def Let_def)
  moreover have "stage s3 = stage s" "history s3 = history s @
      [(''HERO'', action_name action, bet_size),
       (''VILLAIN'', resp, if resp = ''FOLD'' then 0 else amt)]"
    using st3 h3 by (simp_all add: s2_def)
  ultimately show ?thesis using act by blast
qed

section \<open>A failure in a decision step\<close>

text \<open>
  Claim C8 says that a failure inside a decision step never reaches the caller of
  \<open>simulate_hand\<close>, which returns its tuple from the partial statistics. The \<open>try\<close>
  block does catch the failure and leaves the loop. But the only statement of a decision
  step that can fail is the call of \<open>estimate_equity\<close> in \<open>calculate_ev\<close>, and after
  the loop the stage is neither TERMINAL nor SHOWDOWN, so the resolution calls
  \<open>estimate_equity\<close> again, outside the \<open>try\<close> block, on the same cards and stage: the
  same exception reaches the caller and no tuple is returned.
\<close>

theorem decision_failure_propagates:
  assumes "stage s \<notin> {TERMINAL, SHOWDOWN}" and "fst (optimal_action s u1) = Inl e"
  shows "hand_loop ((u1, u2) # draws) s 0 0 = Some (snd (optimal_action s u1), 0, 0)
       \<and> simulate_hand s ((u1, u2) # draws) w = Some (Inl e)"
proof -
  have loop: "hand_loop ((u1, u2) # draws) s 0 0 = Some (snd (optimal_action s u1), 0, 0)"
    using assms by (cases "optimal_action s u1") auto
  have "stage (snd (optimal_action s u1)) \<noteq> TERMINAL"
    using assms(1) by simp
  then have "simulate_hand s ((u1, u2) # draws) w = Some (Inl e)"
    unfolding simulate_hand_def loop
    using optimal_action_Inl [OF assms(2)]
    by (simp add: bind_err_def)
  with loop show ?thesis by simp
qed

text \<open>On the RIVER with the tokens "A" and "K": IndexError reaches the caller.\<close>

lemma river_short_tokens_fails: "fst (optimal_action river_short_tokens u) = Inl IndexError"
  by (simp add: river_short_tokens_def scenario_A_def optimal_action_def is_bet_in_front_def
      with_ev_def calculate_ev_def opponent_response_def estimate_equity_def equity_body_def
      get_def bind_err_def ord_def Let_def)

theorem decision_failure_propagates_witness:
  "stage river_short_tokens \<notin> {TERMINAL, SHOWDOWN}
   \<and> fst (optimal_action river_short_tokens 0) = Inl IndexError
   \<and> hand_loop [(0, 0)] river_short_tokens 0 0 = Some (river_short_tokens, 0, 0)
   \<and> simulate_hand river_short_tokens [(0, 0)] 0 = Some (Inl IndexError)"
proof -
  have st: "stage river_short_tokens \<notin> {TERMINAL, SHOWDOWN}"
    by (simp add: river_short_tokens_def)
  have same: "snd (optimal_action river_short_tokens 0) = river_short_tokens"
    by (simp add: optimal_action_state is_bet_in_front_def river_short_tokens_def scenario_A_def)
  from decision_failure_propagates [OF st river_short_tokens_fails, of 0 0 "[]" 0]
  show ?thesis using st river_short_tokens_fails same by simp
qed

text \<open>
  The loop ends in a stage other than TERMINAL and SHOWDOWN only through the \<open>except\<close>
  branch, in whatever round; the resolution then fails as the decision step did.
\<close>

lemma hand_loop_break:
  assumes "hand_loop draws s tot cnt = Some (s1, tot1, cnt1)"
    and "stage s1 \<notin> set [TERMINAL, SHOWDOWN]"
  shows "\<exists>e. estimate_equity s1 = Inl e"
  using assms
proof (induction draws arbitrary: s tot cnt)
  case Nil
  then show ?case by (auto split: if_splits)
next
  case (Cons d draws)
  obtain u1 u2 where d: "d = (u1, u2)" by (cases d)
  show ?case
  proof (cases "stage s \<in> set [TERMINAL, SHOWDOWN]")
    case True
    with Cons.prems d show ?thesis by (auto split: if_splits)
  next
    case False
    show ?thesis
    proof (cases "fst (optimal_action s u1)")
      case (Inl e)
      from Cons.prems(1) d False Inl have "s1 = snd (optimal_action s u1)"
        by (cases "optimal_action s u1") auto
      with optimal_action_Inl [OF Inl] show ?thesis by blast
    next
      case (Inr r)
      obtain action bet_size ev where r: "r = ((action, bet_size), ev)"
        by (cases r) auto
      from hand_loop_round [OF False Inr [unfolded r], of u2 draws tot cnt]
      obtain resp s3 where loop: "hand_loop (d # draws) s tot cnt =
          (if resp = ''FOLD'' then Some ((update_stage s3)\<lparr>stage := TERMINAL\<rparr>, tot + ev, cnt + 1)
           else if hero_stack (update_stage s3) = 0 \<or> villain_stack (update_stage s3) = 0
           then Some ((update_stage s3)\<lparr>stage := SHOWDOWN\<rparr>, tot + ev, cnt + 1)
           else hand_loop draws (update_stage s3) (tot + ev) (cnt + 1))"
        unfolding d by blast
      then have "hand_loop draws (update_stage s3) (tot + ev) (cnt + 1) = Some (s1, tot1, cnt1)"
        using Cons.prems by (auto split: if_splits)
      from Cons.IH [OF this Cons.prems(2)] show ?thesis .
    qed
  qed
qed

lemma simulate_hand_break:
  assumes "hand_loop draws s 0 0 = Some (s1, tot, cnt)"
    and "stage s1 \<notin> set [TERMINAL, SHOWDOWN]"
  shows "\<exists>e. simulate_hand s draws w = Some (Inl e)"
proof -
  obtain e where "estimate_equity s1 = Inl e"
    using hand_loop_break [OF assms] by blast
  then show ?thesis
    using assms by (simp add: simulate_hand_def bind_err_def)
qed

section \<open>The hero never folds\<close>

lemma hand_loop_terminal:
  assumes "hand_loop draws s tot cnt = Some (s1, tot1, cnt1)"
    and "stage s \<noteq> TERMINAL" and "stage s1 = TERMINAL"
  shows "history s1 \<noteq> [] \<and> last (history s1) = (''VILLAIN'', ''FOLD'', 0)"
  using assms
proof (induction draws arbitrary: s tot cnt)
  case Nil
  then show ?case by (auto split: if_splits)
next
  case (Cons d draws)
  obtain u1 u2 where d: "d = (u1, u2)" by (cases d)
  show ?case
  proof (cases "stage s \<in> set [TERMINAL, SHOWDOWN]")
    case True
    with Cons.prems d show ?thesis by (auto split: if_splits)
  next
    case False
    show ?thesis
    proof (cases "fst (optimal_action s u1)")
      case (Inl e)
      with Cons.prems d False show ?thesis
        using optimal_action_stage [of s u1] by (cases "optimal_action s u1") auto
    next
      case (Inr r)
      obtain action bet_size ev where r: "r = ((action, bet_size), ev)"
        by (cases r) auto
      from hand_loop_round [OF False Inr [unfolded r], of u2 draws tot cnt]
      obtain resp amt s3 where st3: "stage s3 = stage s"
        and act: "action \<in> {CHECK, CALL, BET, RAISE}"
        and h3: "history s3 = history s @
          [(''HERO'', action_name action, bet_size),
           (''VILLAIN'', resp, if resp = ''FOLD'' then 0 else amt)]"
        and loop: "hand_loop (d # draws) s tot cnt =
          (if resp = ''FOLD'' then Some ((update_stage s3)\<lparr>stage := TERMINAL\<rparr>, tot + ev, cnt + 1)
           else if hero_stack (update_stage s3) = 0 \<or> villain_stack (update_stage s3) = 0
           then Some ((update_stage s3)\<lparr>stage := SHOWDOWN\<rparr>, tot + ev, cnt + 1)
           else hand_loop draws (update_stage s3) (tot + ev) (cnt + 1))"
        unfolding d by blast
      show ?thesis
      proof (cases "resp = ''FOLD''")
        case True
        with loop Cons.prems(1) h3 show ?thesis by auto
      next
        case nofold: False
        have "''FOLD'' \<notin> set (map (\<lambda>action. fst (snd action)) (last_two (history s3)))"
          using act nofold h3 by (auto simp: last_two_def)
        then have nt: "stage (update_stage s3) \<noteq> TERMINAL"
          using update_stage_TERMINAL [of s3] st3 False by auto
        show ?thesis
        proof (cases "hero_stack (update_stage s3) = 0 \<or> villain_stack (update_stage s3) = 0")
          case True
          with loop nofold Cons.prems(1,3) show ?thesis by auto
        next
          case False
          with loop nofold Cons.prems(1)
          have "hand_loop draws (update_stage s3) (tot + ev) (cnt + 1) = Some (s1, tot1, cnt1)"
            by simp
          from Cons.IH [OF this nt Cons.prems(3)] show ?thesis .
        qed
      qed
    qed
  qed
qed

text \<open>
  Claim C10. In every state \<open>optimal_action\<close> returns only CHECK, CALL, BET or RAISE,
  never FOLD and never ALL_IN. Whenever a hand simulated from a state whose stage is not
  TERMINAL ends in stage TERMINAL, the last history entry is a FOLD of the villain, and
  the resolution names the Hero the winner and adds the pot to the hero's stack; the
  villain's stack is left as it is.
\<close>

theorem hero_never_folds:
  assumes "stage s \<noteq> TERMINAL" and "hand_loop draws s 0 0 = Some (s1, tot, cnt)"
    and "stage s1 = TERMINAL"
  shows "(\<forall>a sz ev. fst (optimal_action t u) = Inr ((a, sz), ev)
            \<longrightarrow> a \<in> {CHECK, CALL, BET, RAISE} \<and> a \<noteq> FOLD \<and> a \<noteq> ALL_IN)
       \<and> history s1 \<noteq> [] \<and> last (history s1) = (''VILLAIN'', ''FOLD'', 0)
       \<and> simulate_hand s draws w =
           Some (Inr ((''Hero'', hero_stack s1 + pot s1 - initial_stack s1, tot, cnt,
                       if cnt > 0 then tot / real cnt else 0),
                      s1\<lparr>hero_stack := hero_stack s1 + pot s1\<rparr>))"
proof -
  have policy: "a \<in> {CHECK, CALL, BET, RAISE} \<and> a \<noteq> FOLD \<and> a \<noteq> ALL_IN"
    if "fst (optimal_action t u) = Inr ((a, sz), ev)" for a sz ev
  proof -
    obtain a0 sz0 where a0: "a0 \<in> {CHECK, CALL, BET, RAISE}"
      and "fst (optimal_action t u) = with_ev (snd (is_bet_in_front t)) a0 sz0"
      using optimal_action_result [of t u] by blast
    with that have "with_ev (snd (is_bet_in_front t)) a0 sz0 = Inr ((a, sz), ev)" by simp
    from with_ev_Inr [OF this] a0 show ?thesis by auto
  qed
  from hand_loop_terminal [OF assms(2,1,3)]
  have h: "history s1 \<noteq> []" and l: "last (history s1) = (''VILLAIN'', ''FOLD'', 0)"
    by simp_all
  have "simulate_hand s draws w =
           Some (Inr ((''Hero'', hero_stack s1 + pot s1 - initial_stack s1, tot, cnt,
                       if cnt > 0 then tot / real cnt else 0),
                      s1\<lparr>hero_stack := hero_stack s1 + pot s1\<rparr>))"
    using assms(2,3) h l by (simp add: simulate_hand_def get_last_def bind_err_def Let_def)
  with policy h l show ?thesis by blast
qed

text \<open>Scenario A with the villain folding to the first raise.\<close>

lemma fold_end_eval:
  "stage fold_end = TERMINAL \<and> hero_stack fold_end = 97 \<and> pot fold_end = 4.5
   \<and> initial_stack fold_end = 100 \<and> villain_stack fold_end = 100
   \<and> history fold_end = [(''HERO'', ''RAISE'', 3), (''VILLAIN'', ''FOLD'', 0)]"
  by (simp add: fold_end_def eval_defs)

lemma hand_loop_fold: "hand_loop [(0, 0.5)] scenario_A 0 0 = Some (fold_end, ev_A, 1)"
proof -
  have opt: "optimal_action scenario_A 0 = (Inr ((RAISE, 3.0), ev_A), scenario_A)"
    by (rule scenario_A_policy)
  have resp: "fst (execute_action (scenario_A\<lparr>decision_evs := [ev_A]\<rparr>) RAISE 3.0 0.5) = Inr ''FOLD''"
    by (simp add: eval_defs)
  have st: "stage scenario_A = PREFLOP" "decision_evs scenario_A = []"
    by (simp_all add: scenario_A_def)
  show ?thesis
    using resp
    by (cases "execute_action (scenario_A\<lparr>decision_evs := [ev_A]\<rparr>) RAISE 3.0 0.5")
       (simp add: opt st fold_end_def)
qed

theorem hero_never_folds_witness:
  "stage scenario_A \<noteq> TERMINAL
   \<and> hand_loop [(0, 0.5)] scenario_A 0 0 = Some (fold_end, ev_A, 1)
   \<and> stage fold_end = TERMINAL
   \<and> fst (optimal_action scenario_A 0) = Inr ((RAISE, 3.0), ev_A)
   \<and> last (history fold_end) = (''VILLAIN'', ''FOLD'', 0)
   \<and> simulate_hand scenario_A [(0, 0.5)] 0 =
        Some (Inr ((''Hero'', 1.5, ev_A, 1, ev_A), fold_end\<lparr>hero_stack := 101.5\<rparr>))"
proof -
  have st: "stage scenario_A \<noteq> TERMINAL" by (simp add: scenario_A_def)
  have opt: "fst (optimal_action scenario_A 0) = Inr ((RAISE, 3.0), ev_A)"
    by (simp add: scenario_A_policy)
  from hero_never_folds [OF st hand_loop_fold, of scenario_A 0 0] fold_end_eval
  show ?thesis using st opt hand_loop_fold by simp
qed

end
